theory Spec2Isabelle
  imports Main
begin

section \<open>The appregistry-server bootstrap (cmd/appregistry-server/main.go)\<close>

text \<open>
  The program is a start-up sequence: it reads command-line flags, resolves the list of
  source specifiers, loads them into a store, binds a listener and serves. Everything it
  calls (the flag set of the command, the log hooks, the loader, the network, the RPC
  server) lives outside the file, so those calls are parameters of the model: a record
  of functions giving the result of each call. What the program does to the outside is
  kept as a trace of events, in program order.
\<close>

subsection \<open>Errors, flags and events\<close>

text \<open>A Go \<open>error\<close> value, identified with the text of \<open>err.Error()\<close>.\<close>

datatype error = Err (msg: string)

text \<open>What \<open>rootCmd.Execute\<close> finds on the command line before it calls the hooks.\<close>

datatype parse_result = ParseFailed error | HelpRequested | Parsed

text \<open>
  The flag set of the command, as the program sees it: \<open>cmd.Flags().GetBool\<close>,
  \<open>GetString\<close> and \<open>GetStringSlice\<close> return a value or an error for a flag name.
  A Go slice is a list; \<open>nil\<close> and the empty slice both have length 0 and are \<open>[]\<close>.
\<close>

record Command =
  flagsMarkHidden :: "string \<Rightarrow> error + unit"
  flagsParse :: parse_result
  flagsGetBool :: "string \<Rightarrow> error + bool"
  flagsGetString :: "string \<Rightarrow> error + string"
  flagsGetStringSlice :: "string \<Rightarrow> error + string list"

text \<open>\<open>s.Serve(lis)\<close> either never returns or returns \<open>nil\<close> or an error.\<close>

datatype serve_result = Blocking | Returned "error option"

text \<open>
  One event per call that leaves the file, with the arguments and, for a call that can
  fail, what it returned.
\<close>

datatype 's event =
    MarkHidden string "error option"
  | ParseArgs "error option"
  | ShowHelp
  | GetFlag string "error option"
  | SetLevelDebug
  | AddHooks string "error option"
  | NewLoader string bool "error option"
  | Load string "string list" string "error + 's"
  | Listen string string "error option"
  | NewServer
  | RegisterRegistryServer 's
  | RegisterHealthServer
  | ReflectionRegister
  | LogInfo string
  | LogFatal string
  | LogPanic string
  | Serve serve_result

fun err_of :: "error + 'a \<Rightarrow> error option" where
  "err_of (Inl e) = Some e"
| "err_of (Inr _) = None"

text \<open>A call: the event it leaves, and its Go result (\<open>Inl\<close> the non-nil error).\<close>

definition call :: "(error option \<Rightarrow> 's event) \<Rightarrow> error + 'a \<Rightarrow> 's event list \<times> (error + 'a)" where
  "call ev r = ([ev (err_of r)], r)"

subsection \<open>handleSourceFlag\<close>

text \<open>
  The function reads the old flag \<open>sources\<close>; an error of that read is returned. A
  non-empty value is returned with \<open>legacy = true\<close>. Otherwise the new flag
  \<open>registry\<close> is read, an error of that read is returned, and its value is returned
  with \<open>legacy\<close> left at \<open>false\<close>. On an error the other two results are the zero
  values and the caller drops them, so the result is a sum.
\<close>

definition handleSourceFlag :: "Command \<Rightarrow> 's event list \<times> (error + string list \<times> bool)" where
  "handleSourceFlag cmd =
     (case call (GetFlag ''sources'') (flagsGetStringSlice cmd ''sources'') of
        (tr1, Inl err) \<Rightarrow> (tr1, Inl err)
      | (tr1, Inr operatorSourceCRNames) \<Rightarrow>
          if length operatorSourceCRNames > 0
          then (tr1, Inr (operatorSourceCRNames, True))
          else (case call (GetFlag ''registry'') (flagsGetStringSlice cmd ''registry'') of
                  (tr2, Inl err) \<Rightarrow> (tr1 @ tr2, Inl err)
                | (tr2, Inr remoteSources) \<Rightarrow> (tr1 @ tr2, Inr (remoteSources, False))))"

subsection \<open>The flags that main defines\<close>

text \<open>
  \<open>main\<close> defines eight flags with their defaults; reading a flag that is not defined
  is an error of the flag library.
\<close>

definition notDefined :: "string \<Rightarrow> error" where
  "notDefined name = Err (''flag accessed but not defined: '' @ name)"

definition rootCmd :: Command where
  "rootCmd = \<lparr>
     flagsMarkHidden = (\<lambda>name. if name = ''debug'' then Inr () else Inl (notDefined name)),
     flagsParse = Parsed,
     flagsGetBool = (\<lambda>name. if name = ''debug'' then Inr False else Inl (notDefined name)),
     flagsGetString = (\<lambda>name.
        if name = ''kubeconfig'' then Inr []
        else if name = ''database'' then Inr ''bundles.db''
        else if name = ''packages'' then Inr []
        else if name = ''port'' then Inr ''50051''
        else if name = ''termination-log'' then Inr ''/dev/termination-log''
        else Inl (notDefined name)),
     flagsGetStringSlice = (\<lambda>name.
        if name = ''sources'' then Inr []
        else if name = ''registry'' then Inr []
        else Inl (notDefined name)) \<rparr>"

text \<open>The command after \<open>-s\<close> and \<open>-r\<close> were given: the two reads return \<open>s\<close> and \<open>r\<close>.\<close>

definition withSources :: "error + string list \<Rightarrow> error + string list \<Rightarrow> Command \<Rightarrow> Command" where
  "withSources s r cmd = cmd \<lparr> flagsGetStringSlice :=
     (\<lambda>name. if name = ''sources'' then s else if name = ''registry'' then r
              else flagsGetStringSlice cmd name) \<rparr>"

subsection \<open>The collaborators and the control flow of the driver\<close>

text \<open>
  The logger made by \<open>logrus.WithFields\<close> is its list of fields. The loader, the
  listener and the store are opaque: type parameters.
\<close>

type_synonym logger = "(string \<times> string) list"

record ('l, 'n, 's) Env =
  addDefaultWriterHooks :: "string \<Rightarrow> error + unit"
  newLoader :: "string \<Rightarrow> logger \<Rightarrow> bool \<Rightarrow> error + 'l"
  load :: "'l \<Rightarrow> string \<Rightarrow> string list \<Rightarrow> string \<Rightarrow> error + 's"
  listen :: "string \<Rightarrow> string \<Rightarrow> error + 'n"
  serve :: "'n \<Rightarrow> serve_result"

text \<open>
  How a function of the program ends: it returns (\<open>nil\<close> or an error), the process
  exits with a status (\<open>logger.Fatalf\<close> logs and calls \<open>os.Exit(1)\<close>), it panics
  (\<open>logrus.Panic\<close> logs and panics), or it blocks for ever in \<open>Serve\<close>.
\<close>

datatype outcome = Returns "error option" | Exits nat | Panics string | Blocks

text \<open>A piece of the driver: the events so far, and either the way it ended or a value.\<close>

type_synonym ('s, 'a) run = "'s event list \<times> (outcome + 'a)"

definition andThen :: "('s, 'a) run \<Rightarrow> ('a \<Rightarrow> ('s, 'b) run) \<Rightarrow> ('s, 'b) run" where
  "andThen m f =
     (case m of
        (tr, Inl out) \<Rightarrow> (tr, Inl out)
      | (tr, Inr x) \<Rightarrow> (case f x of (tr', r) \<Rightarrow> (tr @ tr', r)))"

text \<open>\<open>if err != nil { return err }\<close>\<close>

definition orReturn :: "'s event list \<times> (error + 'a) \<Rightarrow> ('s, 'a) run" where
  "orReturn c =
     (case c of
        (tr, Inl err) \<Rightarrow> (tr, Inl (Returns (Some err)))
      | (tr, Inr x) \<Rightarrow> (tr, Inr x))"

text \<open>\<open>if err != nil { logger.Fatalf(format, err) }\<close>\<close>

definition orFatalf :: "string \<Rightarrow> 's event list \<times> (error + 'a) \<Rightarrow> ('s, 'a) run" where
  "orFatalf format c =
     (case c of
        (tr, Inl err) \<Rightarrow> (tr @ [LogFatal (format @ msg err)], Inl (Exits 1))
      | (tr, Inr x) \<Rightarrow> (tr, Inr x))"

definition emit :: "'s event \<Rightarrow> ('s, unit) run" where
  "emit e = ([e], Inr ())"

text \<open>\<open>if err := s.Serve(lis); err != nil { logger.Fatalf("failed to serve: %v", err) }\<close>\<close>

definition serving :: "serve_result \<Rightarrow> ('s, unit) run" where
  "serving r =
     (case r of
        Blocking \<Rightarrow> ([Serve r], Inl Blocks)
      | Returned None \<Rightarrow> ([Serve r], Inr ())
      | Returned (Some err) \<Rightarrow> ([Serve r, LogFatal (''failed to serve: '' @ msg err)], Inl (Exits 1)))"

text \<open>The final \<open>return nil\<close>.\<close>

definition returnNil :: "('s, unit) run \<Rightarrow> 's event list \<times> outcome" where
  "returnNil m =
     (case m of
        (tr, Inl out) \<Rightarrow> (tr, out)
      | (tr, Inr _) \<Rightarrow> (tr, Returns None))"

subsection \<open>runCmdFunc\<close>

definition runCmdFunc :: "('l, 'n, 's) Env \<Rightarrow> Command \<Rightarrow> 's event list \<times> outcome" where
  "runCmdFunc env cmd = returnNil (
     andThen (orReturn (call (GetFlag ''termination-log'') (flagsGetString cmd ''termination-log'')))
       (\<lambda>terminationLogPath.
     andThen (orReturn (call (AddHooks terminationLogPath) (addDefaultWriterHooks env terminationLogPath)))
       (\<lambda>_.
     andThen (orReturn (call (GetFlag ''kubeconfig'') (flagsGetString cmd ''kubeconfig'')))
       (\<lambda>kubeconfig.
     andThen (orReturn (call (GetFlag ''port'') (flagsGetString cmd ''port'')))
       (\<lambda>port.
     andThen (orReturn (handleSourceFlag cmd))
       (\<lambda>(sources, legacy).
     andThen (orReturn (call (GetFlag ''packages'') (flagsGetString cmd ''packages'')))
       (\<lambda>packages.
     andThen (orReturn (call (GetFlag ''database'') (flagsGetString cmd ''database'')))
       (\<lambda>dbName.
     andThen (orFatalf ''error initializing - ''
                (call (NewLoader kubeconfig legacy)
                   (newLoader env kubeconfig [(''type'', ''appregistry''), (''port'', port)] legacy)))
       (\<lambda>loader.
     andThen (orFatalf ''error loading manifest from remote registry - ''
                ([Load dbName sources packages (load env loader dbName sources packages)],
                 load env loader dbName sources packages))
       (\<lambda>store.
     andThen (orFatalf ''failed to listen: ''
                (call (Listen ''tcp'' ('':'' @ port)) (listen env ''tcp'' ('':'' @ port))))
       (\<lambda>lis.
     andThen (emit NewServer)
       (\<lambda>_.
     andThen (emit (RegisterRegistryServer store))
       (\<lambda>_.
     andThen (emit RegisterHealthServer)
       (\<lambda>_.
     andThen (emit ReflectionRegister)
       (\<lambda>_.
     andThen (emit (LogInfo ''serving registry''))
       (\<lambda>_.
     serving (serve env lis)))))))))))))))))"

subsection \<open>main\<close>

text \<open>The \<open>PreRunE\<close> hook: the error of reading \<open>debug\<close> is dropped, and it returns \<open>nil\<close>.\<close>

definition PreRunE :: "Command \<Rightarrow> 's event list \<times> (error + unit)" where
  "PreRunE cmd =
     (case call (GetFlag ''debug'') (flagsGetBool cmd ''debug'') of
        (tr, Inr True) \<Rightarrow> (tr @ [SetLevelDebug], Inr ())
      | (tr, _) \<Rightarrow> (tr, Inr ()))"

text \<open>
  \<open>rootCmd.Execute()\<close>: the command line is parsed; a parse error is returned, a
  request for help prints the help and returns \<open>nil\<close>; otherwise \<open>PreRunE\<close> and then
  \<open>RunE\<close> run, and the first error is returned.
\<close>

definition Execute :: "('l, 'n, 's) Env \<Rightarrow> Command \<Rightarrow> 's event list \<times> outcome" where
  "Execute env cmd =
     (case flagsParse cmd of
        ParseFailed err \<Rightarrow> ([ParseArgs (Some err)], Returns (Some err))
      | HelpRequested \<Rightarrow> ([ParseArgs None, ShowHelp], Returns None)
      | Parsed \<Rightarrow>
          (case PreRunE cmd of
             (tr, Inl err) \<Rightarrow> (ParseArgs None # tr, Returns (Some err))
           | (tr, Inr _) \<Rightarrow>
               (case runCmdFunc env cmd of (tr', out) \<Rightarrow> (ParseArgs None # tr @ tr', out))))"

definition main :: "('l, 'n, 's) Env \<Rightarrow> Command \<Rightarrow> 's event list \<times> outcome" where
  "main env cmd =
     (case call (MarkHidden ''debug'') (flagsMarkHidden cmd ''debug'') of
        (tr, Inl err) \<Rightarrow> (tr @ [LogPanic (msg err)], Panics (msg err))
      | (tr, Inr _) \<Rightarrow>
          (case Execute env cmd of
             (tr', Returns (Some err)) \<Rightarrow> (tr @ tr' @ [LogPanic (msg err)], Panics (msg err))
           | (tr', out) \<Rightarrow> (tr @ tr', out)))"

text \<open>
  The exit status of the process: a return of \<open>main\<close> is status 0, \<open>os.Exit(n)\<close> is
  \<open>n\<close>, a panic that nothing recovers is status 2; a process that blocks has none.
\<close>

fun exit_status :: "outcome \<Rightarrow> nat option" where
  "exit_status (Returns _) = Some 0"
| "exit_status (Exits n) = Some n"
| "exit_status (Panics _) = Some 2"
| "exit_status Blocks = None"

subsection \<open>Reading a trace\<close>

fun is_flag_read :: "'s event \<Rightarrow> bool" where
  "is_flag_read (GetFlag _ _) = True"
| "is_flag_read _ = False"

text \<open>\<open>loader.Load\<close> returned a store.\<close>

fun is_load_ok :: "'s event \<Rightarrow> bool" where
  "is_load_ok (Load _ _ _ (Inr _)) = True"
| "is_load_ok _ = False"

text \<open>\<open>appregistry.NewLoader\<close> or \<open>loader.Load\<close> returned an error.\<close>

fun loader_failed :: "'s event \<Rightarrow> bool" where
  "loader_failed (NewLoader _ _ (Some _)) = True"
| "loader_failed (Load _ _ _ (Inl _)) = True"
| "loader_failed _ = False"

text \<open>A call of \<open>net.Listen\<close>, whatever it returned.\<close>

fun is_listen :: "'s event \<Rightarrow> bool" where
  "is_listen (Listen _ _ _) = True"
| "is_listen _ = False"

text \<open>The calls that bind the listener or register the registry or the health service.\<close>

fun binds_or_registers :: "'s event \<Rightarrow> bool" where
  "binds_or_registers (Listen _ _ _) = True"
| "binds_or_registers (RegisterRegistryServer _) = True"
| "binds_or_registers (RegisterHealthServer) = True"
| "binds_or_registers _ = False"

text \<open>The calls on the RPC server: its creation, the registrations and \<open>Serve\<close>.\<close>

fun server_call :: "'s event \<Rightarrow> bool" where
  "server_call NewServer = True"
| "server_call (RegisterRegistryServer _) = True"
| "server_call RegisterHealthServer = True"
| "server_call ReflectionRegister = True"
| "server_call (Serve _) = True"
| "server_call _ = False"

text \<open>A call that returned an error.\<close>

fun failed :: "'s event \<Rightarrow> bool" where
  "failed (MarkHidden _ (Some _)) = True"
| "failed (ParseArgs (Some _)) = True"
| "failed (GetFlag _ (Some _)) = True"
| "failed (AddHooks _ (Some _)) = True"
| "failed (NewLoader _ _ (Some _)) = True"
| "failed (Load _ _ _ (Inl _)) = True"
| "failed (Listen _ _ (Some _)) = True"
| "failed (Serve (Returned (Some _))) = True"
| "failed _ = False"

text \<open>The read of \<open>debug\<close> in \<open>PreRunE\<close>, whose error the program drops.\<close>

fun is_debug_read :: "'s event \<Rightarrow> bool" where
  "is_debug_read (GetFlag name _) = (name = ''debug'')"
| "is_debug_read _ = False"

text \<open>
  Modelled from the spec: \<open>log.AddDefaultWriterHooks\<close> (pkg/lib/log) is not among the
  sources. The specification calls the termination log the "path written with the final
  fatal error before exit" and says that a failure "writes a diagnostic line to the
  termination-log path". So: once \<open>AddDefaultWriterHooks path\<close> has returned \<open>nil\<close>,
  every line logged at fatal or panic level is written to \<open>path\<close>; before that, nothing
  is. The function gives the lines written, as pairs of path and line, for a trace that
  starts with the hook \<open>hook\<close> installed.
\<close>

fun termination_log :: "string option \<Rightarrow> 's event list \<Rightarrow> (string \<times> string) list" where
  "termination_log hook [] = []"
| "termination_log hook (AddHooks path None # tr) = termination_log (Some path) tr"
| "termination_log hook (LogFatal line # tr) =
     (case hook of None \<Rightarrow> [] | Some path \<Rightarrow> [(path, line)]) @ termination_log hook tr"
| "termination_log hook (LogPanic line # tr) =
     (case hook of None \<Rightarrow> [] | Some path \<Rightarrow> [(path, line)]) @ termination_log hook tr"
| "termination_log hook (_ # tr) = termination_log hook tr"

text \<open>
  The stages of the driver as the specification lists them (section 4.4), numbered in
  its order: Init 0, LogSetupDone 1, ConfigRead 2, SourcesResolved 3, Loaded 4,
  Listening 5, Serving 6, Terminated 7. An event belongs to the stage it leads to; reading
  a configuration flag is ConfigRead, reading \<open>sources\<close> or \<open>registry\<close> is the resolver.
\<close>

fun spec_stage :: "'s event \<Rightarrow> nat" where
  "spec_stage (GetFlag name _) =
     (if name = ''debug'' then 0
      else if name = ''termination-log'' then 1
      else if name = ''sources'' \<or> name = ''registry'' then 3
      else 2)"
| "spec_stage (MarkHidden _ _) = 0"
| "spec_stage (ParseArgs _) = 0"
| "spec_stage ShowHelp = 0"
| "spec_stage SetLevelDebug = 0"
| "spec_stage (AddHooks _ _) = 1"
| "spec_stage (NewLoader _ _ _) = 4"
| "spec_stage (Load _ _ _ _) = 4"
| "spec_stage (Listen _ _ _) = 5"
| "spec_stage NewServer = 6"
| "spec_stage (RegisterRegistryServer _) = 6"
| "spec_stage RegisterHealthServer = 6"
| "spec_stage ReflectionRegister = 6"
| "spec_stage (LogInfo _) = 6"
| "spec_stage (Serve _) = 6"
| "spec_stage (LogFatal _) = 7"
| "spec_stage (LogPanic _) = 7"

text \<open>
  The stages in the order of the code: the reads of \<open>kubeconfig\<close> and \<open>port\<close> (2)
  come before the resolver (3), the reads of \<open>packages\<close> and \<open>database\<close> (4) after it;
  then Loaded 5, Listening 6, Serving 7, Terminated 8.
\<close>

fun code_stage :: "'s event \<Rightarrow> nat" where
  "code_stage (GetFlag name _) =
     (if name = ''debug'' then 0
      else if name = ''termination-log'' then 1
      else if name = ''kubeconfig'' \<or> name = ''port'' then 2
      else if name = ''sources'' \<or> name = ''registry'' then 3
      else 4)"
| "code_stage (MarkHidden _ _) = 0"
| "code_stage (ParseArgs _) = 0"
| "code_stage ShowHelp = 0"
| "code_stage SetLevelDebug = 0"
| "code_stage (AddHooks _ _) = 1"
| "code_stage (NewLoader _ _ _) = 5"
| "code_stage (Load _ _ _ _) = 5"
| "code_stage (Listen _ _ _) = 6"
| "code_stage NewServer = 7"
| "code_stage (RegisterRegistryServer _) = 7"
| "code_stage RegisterHealthServer = 7"
| "code_stage ReflectionRegister = 7"
| "code_stage (LogInfo _) = 7"
| "code_stage (Serve _) = 7"
| "code_stage (LogFatal _) = 8"
| "code_stage (LogPanic _) = 8"

subsection \<open>Concrete environments\<close>

text \<open>
  Every collaborator succeeds and \<open>Serve\<close> blocks; the store is named by its database.
\<close>

definition healthyEnv :: "(unit, unit, string) Env" where
  "healthyEnv = \<lparr>
     addDefaultWriterHooks = (\<lambda>_. Inr ()),
     newLoader = (\<lambda>_ _ _. Inr ()),
     load = (\<lambda>_ dbName _ _. Inr dbName),
     listen = (\<lambda>_ _. Inr ()),
     serve = (\<lambda>_. Blocking) \<rparr>"

text \<open>Scenario 4 of the specification: the load call fails with a network error.\<close>

definition networkDownEnv :: "(unit, unit, string) Env" where
  "networkDownEnv = healthyEnv \<lparr> load := (\<lambda>_ _ _ _. Inl (Err ''network error'')) \<rparr>"

text \<open>A command on which the flag \<open>termination-log\<close> cannot be read.\<close>

definition noTerminationLogCmd :: Command where
  "noTerminationLogCmd = rootCmd \<lparr> flagsGetString := (\<lambda>name.
     if name = ''termination-log'' then Inl (notDefined name) else flagsGetString rootCmd name) \<rparr>"

section \<open>Symbolic execution\<close>

text \<open>
  The two functions as decision trees: one branch for every way they can end, with the
  trace written out. The properties below are read off the branches.
\<close>

lemmas run_defs =
  andThen_def orReturn_def orFatalf_def emit_def serving_def returnNil_def call_def

lemmas run_splits = sum.splits prod.splits option.splits serve_result.splits

lemma handleSourceFlag_unfold:
  "handleSourceFlag cmd =
     (case flagsGetStringSlice cmd ''sources'' of
        Inl e \<Rightarrow> ([GetFlag ''sources'' (Some e)], Inl e)
      | Inr L \<Rightarrow>
          if L \<noteq> [] then ([GetFlag ''sources'' None], Inr (L, True))
          else (case flagsGetStringSlice cmd ''registry'' of
                  Inl e \<Rightarrow> ([GetFlag ''sources'' None, GetFlag ''registry'' (Some e)], Inl e)
                | Inr M \<Rightarrow>
                    ([GetFlag ''sources'' None, GetFlag ''registry'' None], Inr (M, False))))"
  by (simp add: handleSourceFlag_def call_def split: sum.splits)

lemma handleSourceFlag_ok_trace:
  "handleSourceFlag cmd = (tr, Inr (s, l)) \<Longrightarrow>
     tr = [GetFlag ''sources'' None]
     \<or> tr = [GetFlag ''sources'' None, GetFlag ''registry'' None]"
  by (auto simp: handleSourceFlag_unfold split: sum.splits if_splits)

lemma handleSourceFlag_err_trace:
  "handleSourceFlag cmd = (tr, Inl e) \<Longrightarrow>
     tr = [GetFlag ''sources'' (Some e)]
     \<or> tr = [GetFlag ''sources'' None, GetFlag ''registry'' (Some e)]"
  by (auto simp: handleSourceFlag_unfold split: sum.splits if_splits)

lemma runCmdFunc_unfold:
  "runCmdFunc env cmd =
     (case flagsGetString cmd ''termination-log'' of
       Inl e \<Rightarrow>
         ([GetFlag ''termination-log'' (Some e)],
          Returns (Some e))
     | Inr path \<Rightarrow>
     (case addDefaultWriterHooks env path of
       Inl e \<Rightarrow>
         ([GetFlag ''termination-log'' None, AddHooks path (Some e)],
          Returns (Some e))
     | Inr _ \<Rightarrow>
     (case flagsGetString cmd ''kubeconfig'' of
       Inl e \<Rightarrow>
         ([GetFlag ''termination-log'' None, AddHooks path None,
           GetFlag ''kubeconfig'' (Some e)],
          Returns (Some e))
     | Inr kubeconfig \<Rightarrow>
     (case flagsGetString cmd ''port'' of
       Inl e \<Rightarrow>
         ([GetFlag ''termination-log'' None, AddHooks path None, GetFlag ''kubeconfig'' None,
           GetFlag ''port'' (Some e)],
          Returns (Some e))
     | Inr port \<Rightarrow>
     (case handleSourceFlag cmd of
       (tr, Inl e) \<Rightarrow>
         ([GetFlag ''termination-log'' None, AddHooks path None, GetFlag ''kubeconfig'' None,
           GetFlag ''port'' None]
        @ tr,
          Returns (Some e))
     | (tr, Inr (sources, legacy)) \<Rightarrow>
     (case flagsGetString cmd ''packages'' of
       Inl e \<Rightarrow>
         ([GetFlag ''termination-log'' None, AddHooks path None, GetFlag ''kubeconfig'' None,
           GetFlag ''port'' None]
        @ tr
        @ [GetFlag ''packages'' (Some e)],
          Returns (Some e))
     | Inr packages \<Rightarrow>
     (case flagsGetString cmd ''database'' of
       Inl e \<Rightarrow>
         ([GetFlag ''termination-log'' None, AddHooks path None, GetFlag ''kubeconfig'' None,
           GetFlag ''port'' None]
        @ tr
        @ [GetFlag ''packages'' None, GetFlag ''database'' (Some e)],
          Returns (Some e))
     | Inr dbName \<Rightarrow>
     (case newLoader env kubeconfig [(''type'', ''appregistry''), (''port'', port)] legacy of
       Inl e \<Rightarrow>
         ([GetFlag ''termination-log'' None, AddHooks path None, GetFlag ''kubeconfig'' None,
           GetFlag ''port'' None]
        @ tr
        @ [GetFlag ''packages'' None, GetFlag ''database'' None,
           NewLoader kubeconfig legacy (Some e), LogFatal (''error initializing - '' @ msg e)],
          Exits 1)
     | Inr loader \<Rightarrow>
     (case load env loader dbName sources packages of
       Inl e \<Rightarrow>
         ([GetFlag ''termination-log'' None, AddHooks path None, GetFlag ''kubeconfig'' None,
           GetFlag ''port'' None]
        @ tr
        @ [GetFlag ''packages'' None, GetFlag ''database'' None,
           NewLoader kubeconfig legacy None, Load dbName sources packages (Inl e),
           LogFatal (''error loading manifest from remote registry - '' @ msg e)],
          Exits 1)
     | Inr store \<Rightarrow>
     (case listen env ''tcp'' ('':'' @ port) of
       Inl e \<Rightarrow>
         ([GetFlag ''termination-log'' None, AddHooks path None, GetFlag ''kubeconfig'' None,
           GetFlag ''port'' None]
        @ tr
        @ [GetFlag ''packages'' None, GetFlag ''database'' None,
           NewLoader kubeconfig legacy None, Load dbName sources packages (Inr store),
           Listen ''tcp'' ('':'' @ port) (Some e), LogFatal (''failed to listen: '' @ msg e)],
          Exits 1)
     | Inr lis \<Rightarrow>
     (case serve env lis of
       Blocking \<Rightarrow>
         ([GetFlag ''termination-log'' None, AddHooks path None, GetFlag ''kubeconfig'' None,
           GetFlag ''port'' None]
        @ tr
        @ [GetFlag ''packages'' None, GetFlag ''database'' None,
           NewLoader kubeconfig legacy None, Load dbName sources packages (Inr store),
           Listen ''tcp'' ('':'' @ port) None, NewServer, RegisterRegistryServer store,
           RegisterHealthServer, ReflectionRegister, LogInfo ''serving registry'',
           Serve Blocking],
          Blocks)
     | Returned None \<Rightarrow>
         ([GetFlag ''termination-log'' None, AddHooks path None, GetFlag ''kubeconfig'' None,
           GetFlag ''port'' None]
        @ tr
        @ [GetFlag ''packages'' None, GetFlag ''database'' None,
           NewLoader kubeconfig legacy None, Load dbName sources packages (Inr store),
           Listen ''tcp'' ('':'' @ port) None, NewServer, RegisterRegistryServer store,
           RegisterHealthServer, ReflectionRegister, LogInfo ''serving registry'',
           Serve (Returned None)],
          Returns None)
     | Returned (Some e) \<Rightarrow>
         ([GetFlag ''termination-log'' None, AddHooks path None, GetFlag ''kubeconfig'' None,
           GetFlag ''port'' None]
        @ tr
        @ [GetFlag ''packages'' None, GetFlag ''database'' None,
           NewLoader kubeconfig legacy None, Load dbName sources packages (Inr store),
           Listen ''tcp'' ('':'' @ port) None, NewServer, RegisterRegistryServer store,
           RegisterHealthServer, ReflectionRegister, LogInfo ''serving registry'',
           Serve (Returned (Some e)), LogFatal (''failed to serve: '' @ msg e)],
          Exits 1))))))))))))"
  unfolding runCmdFunc_def
  by (auto simp: run_defs split: run_splits)

lemma main_unfold:
  "main env cmd =
     (case flagsMarkHidden cmd ''debug'' of
        Inl e \<Rightarrow> ([MarkHidden ''debug'' (Some e), LogPanic (msg e)], Panics (msg e))
      | Inr _ \<Rightarrow>
     (case flagsParse cmd of
        ParseFailed e \<Rightarrow>
          ([MarkHidden ''debug'' None, ParseArgs (Some e), LogPanic (msg e)], Panics (msg e))
      | HelpRequested \<Rightarrow> ([MarkHidden ''debug'' None, ParseArgs None, ShowHelp], Returns None)
      | Parsed \<Rightarrow>
     (case runCmdFunc env cmd of
        (tr, Returns (Some e)) \<Rightarrow>
          ([MarkHidden ''debug'' None, ParseArgs None]
           @ fst (PreRunE cmd) @ tr @ [LogPanic (msg e)], Panics (msg e))
      | (tr, out) \<Rightarrow>
          ([MarkHidden ''debug'' None, ParseArgs None] @ fst (PreRunE cmd) @ tr, out))))"
  by (auto simp: main_def Execute_def PreRunE_def call_def
       split: sum.splits prod.splits option.splits parse_result.splits outcome.splits
         bool.splits)

lemma PreRunE_no_log [simp]:
  "termination_log hook (fst (PreRunE cmd) @ tr) = termination_log hook tr"
  by (auto simp: PreRunE_def call_def split: sum.splits bool.splits)

lemma PreRunE_no_hooks [simp]: "AddHooks path r \<notin> set (fst (PreRunE cmd))"
  by (auto simp: PreRunE_def call_def split: sum.splits bool.splits)

lemma PreRunE_no_failure [simp]:
  "e \<in> set (fst (PreRunE cmd)) \<Longrightarrow> failed e \<Longrightarrow> is_debug_read e"
  by (auto simp: PreRunE_def call_def split: sum.splits bool.splits)

lemma withSources_sources [simp]:
  "flagsGetStringSlice (withSources s r cmd) ''sources'' = s"
  by (simp add: withSources_def)

lemma withSources_registry [simp]:
  "flagsGetStringSlice (withSources s r cmd) ''registry'' = r"
  by (simp add: withSources_def)

section \<open>The source resolver\<close>

text \<open>
  C1. For every non-empty legacy list \<open>L\<close> read from \<open>sources\<close>, whatever the
  \<open>registry\<close> flag holds (a list, empty or not, or even an error), the resolver
  returns exactly \<open>(L, legacy = true)\<close>: the legacy list as it is, the modern one ignored.
\<close>

theorem handleSourceFlag_legacy_wins:
  assumes "flagsGetStringSlice cmd ''sources'' = Inr L" and "L \<noteq> []"
  shows "snd (handleSourceFlag cmd :: 's event list \<times> (error + string list \<times> bool)) = Inr (L, True)"
  using assms by (simp add: handleSourceFlag_def call_def)

text \<open>Scenario 1 of the specification: \<open>-s "ns/a,ns/b" -r "url|q|sec"\<close>.\<close>

theorem handleSourceFlag_legacy_wins_witness:
  "flagsGetStringSlice (withSources (Inr [''ns/a'', ''ns/b'']) (Inr [''url|q|sec'']) rootCmd)
       ''sources'' = Inr [''ns/a'', ''ns/b'']
   \<and> [''ns/a'', ''ns/b''] \<noteq> ([] :: string list)
   \<and> snd (handleSourceFlag (withSources (Inr [''ns/a'', ''ns/b'']) (Inr [''url|q|sec'']) rootCmd)
            :: unit event list \<times> (error + string list \<times> bool))
       = Inr ([''ns/a'', ''ns/b''], True)"
  using handleSourceFlag_legacy_wins
    [where ?'s = unit, of "withSources (Inr [''ns/a'', ''ns/b'']) (Inr [''url|q|sec'']) rootCmd"
        "[''ns/a'', ''ns/b'']"]
  by simp

text \<open>
  C2. With an empty legacy list and a modern list \<open>M\<close> read from \<open>registry\<close>, the
  resolver returns exactly \<open>(M, legacy = false)\<close>; \<open>M\<close> may be empty, which gives
  \<open>([], false)\<close>.
\<close>

theorem handleSourceFlag_modern:
  assumes "flagsGetStringSlice cmd ''sources'' = Inr []"
    and "flagsGetStringSlice cmd ''registry'' = Inr M"
  shows "snd (handleSourceFlag cmd :: 's event list \<times> (error + string list \<times> bool)) = Inr (M, False)"
  using assms by (simp add: handleSourceFlag_def call_def)

text \<open>Scenario 3 of the specification: neither flag is given.\<close>

theorem handleSourceFlag_modern_witness:
  "flagsGetStringSlice rootCmd ''sources'' = Inr []
   \<and> flagsGetStringSlice rootCmd ''registry'' = Inr []
   \<and> snd (handleSourceFlag rootCmd :: unit event list \<times> (error + string list \<times> bool))
       = Inr ([], False)"
  using handleSourceFlag_modern [where ?'s = unit, of rootCmd "[]"]
  by (simp add: rootCmd_def)

text \<open>
  C4, as the code has it. The resolver reads the two flags itself, and an error of a
  read is its one failure mode, returned by the resolver: it fails with \<open>e\<close> exactly when
  reading \<open>sources\<close> fails with \<open>e\<close>, or \<open>sources\<close> is empty and reading \<open>registry\<close>
  fails with \<open>e\<close>. In every other case it succeeds.
\<close>

theorem handleSourceFlag_failure_modes:
  "snd (handleSourceFlag cmd :: 's event list \<times> (error + string list \<times> bool)) = Inl e \<longleftrightarrow>
     flagsGetStringSlice cmd ''sources'' = Inl e
     \<or> (flagsGetStringSlice cmd ''sources'' = Inr []
         \<and> flagsGetStringSlice cmd ''registry'' = Inl e)"
  by (auto simp: handleSourceFlag_unfold split: sum.splits if_splits)

theorem handleSourceFlag_failure_modes_witness:
  "flagsGetStringSlice (withSources (Inr []) (Inl (notDefined ''registry'')) rootCmd) ''sources''
       = Inr []
   \<and> flagsGetStringSlice (withSources (Inr []) (Inl (notDefined ''registry'')) rootCmd)
         ''registry'' = Inl (notDefined ''registry'')
   \<and> snd (handleSourceFlag (withSources (Inr []) (Inl (notDefined ''registry'')) rootCmd)
            :: unit event list \<times> (error + string list \<times> bool))
       = Inl (notDefined ''registry'')"
  using handleSourceFlag_failure_modes
    [where ?'s = unit, of "withSources (Inr []) (Inl (notDefined ''registry'')) rootCmd" "notDefined ''registry''"]
  by simp

text \<open>
  C4 as stated says that the resolver has no failure mode. On a command where the flag
  \<open>sources\<close> cannot be read, the resolver itself returns the error of the read.
\<close>

theorem handleSourceFlag_no_failure_counterexample:
  "snd (handleSourceFlag (withSources (Inl (notDefined ''sources'')) (Inr []) rootCmd)
          :: unit event list \<times> (error + string list \<times> bool))
     = Inl (Err ''flag accessed but not defined: sources'')"
  by (simp add: handleSourceFlag_unfold notDefined_def)

text \<open>
  C8. The resolver is deterministic and free of side effects: two commands whose
  \<open>sources\<close> and \<open>registry\<close> reads agree give the same events and the same result,
  whatever else differs between them, and every event of the resolver is a read of a
  flag.
\<close>

theorem handleSourceFlag_deterministic:
  assumes "flagsGetStringSlice c1 ''sources'' = flagsGetStringSlice c2 ''sources''"
    and "flagsGetStringSlice c1 ''registry'' = flagsGetStringSlice c2 ''registry''"
  shows "(handleSourceFlag c1 :: 's event list \<times> (error + string list \<times> bool)) = handleSourceFlag c2
    \<and> (\<forall>e \<in> set (fst (handleSourceFlag c1 :: 's event list \<times> (error + string list \<times> bool))). is_flag_read e)"
  using assms by (auto simp: handleSourceFlag_unfold split: sum.splits)

text \<open>Two commands that differ in another flag, with the flags of scenario 2.\<close>

theorem handleSourceFlag_deterministic_witness:
  "flagsGetStringSlice (withSources (Inr []) (Inr [''url|q|sec'']) rootCmd) ''sources''
     = flagsGetStringSlice (withSources (Inr []) (Inr [''url|q|sec'']) noTerminationLogCmd) ''sources''
   \<and> flagsGetStringSlice (withSources (Inr []) (Inr [''url|q|sec'']) rootCmd) ''registry''
     = flagsGetStringSlice (withSources (Inr []) (Inr [''url|q|sec'']) noTerminationLogCmd) ''registry''
   \<and> flagsGetString rootCmd ''termination-log'' \<noteq> flagsGetString noTerminationLogCmd ''termination-log''
   \<and> (handleSourceFlag (withSources (Inr []) (Inr [''url|q|sec'']) rootCmd)
         :: unit event list \<times> (error + string list \<times> bool))
     = handleSourceFlag (withSources (Inr []) (Inr [''url|q|sec'']) noTerminationLogCmd)
   \<and> (handleSourceFlag (withSources (Inr []) (Inr [''url|q|sec'']) rootCmd)
         :: unit event list \<times> (error + string list \<times> bool))
     = ([GetFlag ''sources'' None, GetFlag ''registry'' None], Inr ([''url|q|sec''], False))"
  using handleSourceFlag_deterministic
    [where ?'s = unit, of "withSources (Inr []) (Inr [''url|q|sec'']) rootCmd"
        "withSources (Inr []) (Inr [''url|q|sec'']) noTerminationLogCmd"]
  by (simp add: handleSourceFlag_unfold noTerminationLogCmd_def rootCmd_def)

text \<open>
  C9. When \<open>sources\<close> holds a non-empty list the flag \<open>registry\<close> is not read at all:
  the only event is the read of \<open>sources\<close> and the result is the legacy list, so an
  error of the \<open>registry\<close> read cannot surface. The flag \<open>registry\<close> is read exactly
  when the read of \<open>sources\<close> gives the empty list.
\<close>

theorem registry_read_only_when_sources_empty:
  "(flagsGetStringSlice cmd ''sources'' = Inr L \<and> L \<noteq> [] \<longrightarrow>
      (handleSourceFlag cmd :: 's event list \<times> (error + string list \<times> bool))
        = ([GetFlag ''sources'' None], Inr (L, True)))
   \<and> ((\<exists>r. GetFlag ''registry'' r
          \<in> set (fst (handleSourceFlag cmd :: 's event list \<times> (error + string list \<times> bool)))) \<longleftrightarrow>
        flagsGetStringSlice cmd ''sources'' = Inr [])"
  by (auto simp: handleSourceFlag_unfold split: sum.splits)

theorem registry_read_only_when_sources_empty_witness:
  "flagsGetStringSlice (withSources (Inr [''ns/a'']) (Inl (Err ''invalid registry value'')) rootCmd)
       ''sources'' = Inr [''ns/a'']
   \<and> [''ns/a''] \<noteq> ([] :: string list)
   \<and> flagsGetStringSlice (withSources (Inr [''ns/a'']) (Inl (Err ''invalid registry value'')) rootCmd)
       ''registry'' = Inl (Err ''invalid registry value'')
   \<and> (handleSourceFlag (withSources (Inr [''ns/a'']) (Inl (Err ''invalid registry value'')) rootCmd)
         :: unit event list \<times> (error + string list \<times> bool))
       = ([GetFlag ''sources'' None], Inr ([''ns/a''], True))"
  using registry_read_only_when_sources_empty
    [where ?'s = unit, of "withSources (Inr [''ns/a'']) (Inl (Err ''invalid registry value'')) rootCmd" "[''ns/a'']"]
  by simp

text \<open>
  C10. The pair the resolver returns is consistent for every input: with
  \<open>legacy = true\<close> the specifiers are the list read from \<open>sources\<close>, which is not
  empty; with \<open>legacy = false\<close> the list read from \<open>sources\<close> is empty and the
  specifiers are the list read from \<open>registry\<close>. So \<open>legacy = true\<close> never comes with
  specifiers that are not the legacy list.
\<close>

theorem handleSourceFlag_consistent:
  assumes "snd (handleSourceFlag cmd :: 's event list \<times> (error + string list \<times> bool)) = Inr (specifiers, legacy)"
  shows "(legacy \<longrightarrow> flagsGetStringSlice cmd ''sources'' = Inr specifiers \<and> specifiers \<noteq> [])
    \<and> (\<not> legacy \<longrightarrow> flagsGetStringSlice cmd ''sources'' = Inr []
          \<and> flagsGetStringSlice cmd ''registry'' = Inr specifiers)"
  using assms by (auto simp: handleSourceFlag_unfold split: sum.splits if_splits)

theorem handleSourceFlag_consistent_witness:
  "snd (handleSourceFlag (withSources (Inr [''ns/a'', ''ns/b'']) (Inr [''url|q|sec'']) rootCmd)
          :: unit event list \<times> (error + string list \<times> bool))
     = Inr ([''ns/a'', ''ns/b''], True)
   \<and> flagsGetStringSlice (withSources (Inr [''ns/a'', ''ns/b'']) (Inr [''url|q|sec'']) rootCmd)
       ''sources'' = Inr [''ns/a'', ''ns/b'']
   \<and> flagsGetStringSlice (withSources (Inr [''ns/a'', ''ns/b'']) (Inr [''url|q|sec'']) rootCmd)
       ''registry'' \<noteq> Inr [''ns/a'', ''ns/b'']"
  using handleSourceFlag_consistent
    [where ?'s = unit, of "withSources (Inr [''ns/a'', ''ns/b'']) (Inr [''url|q|sec'']) rootCmd"
        "[''ns/a'', ''ns/b'']" True]
  by (simp add: handleSourceFlag_unfold)

section \<open>The driver\<close>

text \<open>
  C3. In every run of the bootstrap, no call that binds the listener or registers the
  registry or the health service occurs before \<open>loader.Load\<close> has returned a store
  (in a run where it never does, there is no such call at all). When
  \<open>appregistry.NewLoader\<close> or \<open>loader.Load\<close> returns an error, the process exits
  with status 1 from \<open>logger.Fatalf\<close> and \<open>net.Listen\<close> is never called.
\<close>

theorem listen_only_after_load:
  "(\<forall>e \<in> set (takeWhile (\<lambda>e. \<not> is_load_ok e) (fst (runCmdFunc env cmd))).
       \<not> binds_or_registers e)
   \<and> ((\<exists>e \<in> set (fst (runCmdFunc env cmd)). loader_failed e) \<longrightarrow>
        snd (runCmdFunc env cmd) = Exits 1
        \<and> (\<forall>e \<in> set (fst (runCmdFunc env cmd)). \<not> is_listen e))"
  by (auto simp: runCmdFunc_unfold split: run_splits
       dest!: handleSourceFlag_ok_trace handleSourceFlag_err_trace)

text \<open>Scenario 4 of the specification: the load call fails.\<close>

theorem listen_only_after_load_witness:
  "Load ''bundles.db'' [] [] (Inl (Err ''network error'')) \<in> set (fst (runCmdFunc networkDownEnv rootCmd))
   \<and> loader_failed (Load ''bundles.db'' [] [] (Inl (Err ''network error'')) :: string event)
   \<and> snd (runCmdFunc networkDownEnv rootCmd) = Exits 1
   \<and> filter is_listen (fst (runCmdFunc networkDownEnv rootCmd)) = []
   \<and> filter binds_or_registers
         (takeWhile (\<lambda>e. \<not> is_load_ok e) (fst (runCmdFunc networkDownEnv rootCmd))) = []"
  using listen_only_after_load [of networkDownEnv rootCmd]
  by (simp add: runCmdFunc_unfold handleSourceFlag_unfold networkDownEnv_def healthyEnv_def
        rootCmd_def)

text \<open>
  C7. The calls on the RPC server are, in a run that reaches them, exactly: one
  \<open>grpc.NewServer\<close>, the registration of the registry service with the store that
  \<open>loader.Load\<close> returned, the registration of the health service, the registration of
  reflection, and \<open>Serve\<close>, in this order. A run that does not reach them makes none.
\<close>

theorem registration_order:
  "filter server_call (fst (runCmdFunc env cmd)) = []
   \<or> (\<exists>dbName sources packages store r.
         Load dbName sources packages (Inr store) \<in> set (fst (runCmdFunc env cmd))
         \<and> filter server_call (fst (runCmdFunc env cmd))
             = [NewServer, RegisterRegistryServer store, RegisterHealthServer,
                ReflectionRegister, Serve r])"
  by (auto simp: runCmdFunc_unfold split: run_splits
       dest!: handleSourceFlag_ok_trace handleSourceFlag_err_trace)

theorem registration_order_witness:
  "Load ''bundles.db'' [] [] (Inr ''bundles.db'') \<in> set (fst (runCmdFunc healthyEnv rootCmd))
   \<and> filter server_call (fst (runCmdFunc healthyEnv rootCmd))
       = [NewServer, RegisterRegistryServer ''bundles.db'', RegisterHealthServer,
          ReflectionRegister, Serve Blocking]"
  using registration_order [of healthyEnv rootCmd]
  by (simp add: runCmdFunc_unfold handleSourceFlag_unfold healthyEnv_def rootCmd_def)

text \<open>
  C6, as the code has it. The driver is strictly sequential with no backward
  transitions: along every run the stages of the events never decrease, in the order
  of the code. In that order the flags \<open>termination-log\<close>, \<open>kubeconfig\<close> and \<open>port\<close>
  are read before the resolver runs, the flags \<open>packages\<close> and \<open>database\<close> after
  the resolver has returned, and all flags before the loader is made.
\<close>

theorem stages_never_go_back:
  "sorted (map code_stage (fst (runCmdFunc env cmd)))"
  by (auto simp: runCmdFunc_unfold split: run_splits
       dest!: handleSourceFlag_ok_trace handleSourceFlag_err_trace)

theorem stages_never_go_back_witness:
  "sorted (map code_stage (fst (runCmdFunc healthyEnv rootCmd)))
   \<and> map code_stage (fst (runCmdFunc healthyEnv rootCmd))
       = [1, 1, 2, 2, 3, 3, 4, 4, 5, 5, 6, 7, 7, 7, 7, 7, 7]"
  using stages_never_go_back [of healthyEnv rootCmd]
  by (simp add: runCmdFunc_unfold handleSourceFlag_unfold healthyEnv_def rootCmd_def)

text \<open>
  C6 as stated puts the whole of ConfigRead before SourcesResolved. In the run where
  everything succeeds the stages of the specification go back from the resolver to
  ConfigRead: \<open>packages\<close> and \<open>database\<close> are read after \<open>sources\<close> and \<open>registry\<close>.
\<close>

theorem config_read_before_resolver_counterexample:
  "\<not> sorted (map spec_stage (fst (runCmdFunc healthyEnv rootCmd)))"
  by (simp add: runCmdFunc_unfold handleSourceFlag_unfold healthyEnv_def rootCmd_def)

text \<open>
  C5, as the code has it. When a call of the bootstrap returns an error (the read of
  \<open>debug\<close> apart, whose error is dropped), the process ends with exit status 1 or 2.
  If the termination-log hooks were installed before, exactly one line is written to
  the termination-log path; if they were not, nothing is written to it.
\<close>

theorem failure_exits_nonzero:
  "(\<exists>e \<in> set (fst (main env cmd)). failed e \<and> \<not> is_debug_read e) \<longrightarrow>
     (exit_status (snd (main env cmd)) = Some 1 \<or> exit_status (snd (main env cmd)) = Some 2)
     \<and> (\<forall>path. AddHooks path None \<in> set (fst (main env cmd)) \<longrightarrow>
          (\<exists>line. termination_log None (fst (main env cmd)) = [(path, line)]))
     \<and> ((\<forall>path. AddHooks path None \<notin> set (fst (main env cmd))) \<longrightarrow>
          termination_log None (fst (main env cmd)) = [])"
  by (auto simp: main_unfold runCmdFunc_unfold
       split: run_splits parse_result.splits outcome.splits
       dest!: handleSourceFlag_ok_trace handleSourceFlag_err_trace)

theorem failure_exits_nonzero_witness:
  "Load ''bundles.db'' [] [] (Inl (Err ''network error'')) \<in> set (fst (main networkDownEnv rootCmd))
   \<and> failed (Load ''bundles.db'' [] [] (Inl (Err ''network error'')) :: string event)
   \<and> \<not> is_debug_read (Load ''bundles.db'' [] [] (Inl (Err ''network error'')) :: string event)
   \<and> AddHooks ''/dev/termination-log'' None \<in> set (fst (main networkDownEnv rootCmd))
   \<and> exit_status (snd (main networkDownEnv rootCmd)) = Some 1
   \<and> termination_log None (fst (main networkDownEnv rootCmd))
       = [(''/dev/termination-log'',
           ''error loading manifest from remote registry - network error'')]"
  using failure_exits_nonzero [of networkDownEnv rootCmd]
  by (simp add: main_unfold runCmdFunc_unfold handleSourceFlag_unfold PreRunE_def call_def
        networkDownEnv_def healthyEnv_def rootCmd_def)

text \<open>
  C5 as stated promises the line in the termination log for every failure. When the
  flag \<open>termination-log\<close> itself cannot be read, the bootstrap fails, the process panics
  (status 2), and no hook was installed: nothing is written to a termination log.
\<close>

theorem termination_log_counterexample:
  "GetFlag ''termination-log'' (Some (notDefined ''termination-log''))
     \<in> set (fst (main healthyEnv noTerminationLogCmd))
   \<and> failed (GetFlag ''termination-log'' (Some (notDefined ''termination-log'')) :: string event)
   \<and> termination_log None (fst (main healthyEnv noTerminationLogCmd)) = []
   \<and> exit_status (snd (main healthyEnv noTerminationLogCmd)) = Some 2"
  by (simp add: main_unfold runCmdFunc_unfold PreRunE_def call_def noTerminationLogCmd_def
        rootCmd_def healthyEnv_def notDefined_def)

end
